theory Spec2Isabelle
  imports Complex_Main
begin

section \<open>Exceptions and tensors\<close>

text \<open>
  The two notebooks are exercise sheets: some statements of the classes
  \<^verbatim>\<open>GaborFilters\<close> (partie_1) and \<^verbatim>\<open>Dataset\<close> (partie_2) are written out, others are
  left as \<^verbatim>\<open>...\<close> for the student. The written statements are embedded as they stand.
  Python exceptions are values of \<open>error\<close>; a function that can raise returns
  \<open>error + 'a\<close> with \<open>Inl\<close> for the exception.
\<close>

datatype error = ZeroDivisionError | RuntimeError | ValueError | IndexError

text \<open>
  A tensor of floating-point numbers is a shape together with its entries, read by
  multi-index. The entries of a tensor are real numbers: the arithmetic of the kernel
  generator is taken as exact, without the rounding of 32-bit floats.
\<close>

record tensor =
  shape :: "nat list"
  elems :: "nat list \<Rightarrow> real"

definition tmap :: "(real \<Rightarrow> real) \<Rightarrow> tensor \<Rightarrow> tensor" where
  "tmap f t = \<lparr>shape = shape t, elems = (\<lambda>idx. f (elems t idx))\<rparr>"

text \<open>Python's \<^verbatim>\<open>a // b\<close> on integers: floor division, raising on a zero divisor.\<close>

definition py_floordiv :: "int \<Rightarrow> int \<Rightarrow> error + int" where
  "py_floordiv a b = (if b = 0 then Inl ZeroDivisionError else Inr (a div b))"

text \<open>
  \<^verbatim>\<open>torch.rand(*sizes)\<close>: a tensor of the given sizes filled with uniform samples of
  \<open>[0, 1)\<close>; a negative size raises. The samples drawn are the argument \<open>u\<close>.
\<close>

definition torch_rand :: "(nat list \<Rightarrow> real) \<Rightarrow> int list \<Rightarrow> error + tensor" where
  "torch_rand u sizes =
     (if list_ex (\<lambda>s. s < 0) sizes then Inl RuntimeError
      else Inr \<lparr>shape = map nat sizes, elems = u\<rparr>)"

text \<open>
  \<^verbatim>\<open>torch.linspace(start, end, steps)\<close>: \<open>steps\<close> values from \<open>start\<close> to \<open>end\<close>, both
  included, with common difference \<open>(end - start) / (steps - 1)\<close>; a single step gives
  \<open>start\<close> alone, a negative number of steps raises.
\<close>

definition linspace :: "real \<Rightarrow> real \<Rightarrow> int \<Rightarrow> error + tensor" where
  "linspace start end steps =
     (if steps < 0 then Inl RuntimeError
      else Inr \<lparr>shape = [nat steps],
                elems = (\<lambda>idx. case idx of
                    [i] \<Rightarrow> if steps = 1 then start
                           else start + real i * ((end - start) / real_of_int (steps - 1))
                  | _ \<Rightarrow> 0)\<rparr>)"

section \<open>GaborFilters: construction\<close>

record GaborFilters =
  in_channels :: int
  out_channels :: int
  kernel_size :: "nat \<times> nat"
  n_thetas :: int
  lambda :: tensor
  psi :: tensor
  sigma :: tensor
  gamma :: tensor
  thetas :: tensor

text \<open>
  The argument common to the four initial-value lines:
  \<^verbatim>\<open>torch.rand(self.out_channels//self.n_thetas, 1, self.in_channels, 1, 1)\<close>.
  The floor division is evaluated before \<^verbatim>\<open>torch.rand\<close> is called.
\<close>

definition param_rand :: "(nat list \<Rightarrow> real) \<Rightarrow> int \<Rightarrow> int \<Rightarrow> int \<Rightarrow> error + tensor" where
  "param_rand u oc n ic =
     (case py_floordiv oc n of
        Inl e \<Rightarrow> Inl e
      | Inr g \<Rightarrow> torch_rand u [g, 1, ic, 1, 1])"

text \<open>
  \<^verbatim>\<open>GaborFilters.__init__(self, in_channels, out_channels, kernel_size, ..., n_thetas=5)\<close>.
  The stride, padding, dilation, groups, bias, padding mode, device and dtype are stored
  and handed on unchanged; they take no part in what follows and are left out. The kernel
  size is the pair the convolution layer keeps (an integer \<open>k\<close> stands for \<open>(k, k)\<close>).

  The calls \<^verbatim>\<open>super().__init__(...)\<close> and \<^verbatim>\<open>delattr(self, ...)\<close> have their arguments
  left blank in the source, and what they call is the framework's: their outcome is the
  parameter \<open>super_init\<close> (\<open>None\<close> when they return, \<open>Some e\<close> when one raises \<open>e\<close>).
  The samples drawn by the four calls of \<^verbatim>\<open>torch.rand\<close> are the parameter \<open>rand\<close>.

  Modelled from the spec: the blanks \<^verbatim>\<open>self.lambda_ = ...\<close>, \<^verbatim>\<open>self.psi = ...\<close>,
  \<^verbatim>\<open>self.sigma = ...\<close>, \<^verbatim>\<open>self.gamma = ...\<close> and \<^verbatim>\<open>self.register_buffer(...)\<close> store the
  four initial-value tensors as the learnable parameters and the angle vector as the
  fixed buffer \<open>thetas\<close> ("allocate the four learnable parameter tensors with the
  initialization ranges, and precompute the fixed orientation-angle vector").
  The argument \<open>n_thetas_arg\<close> is never read: the source overwrites the attribute with
  \<^verbatim>\<open>self.out_channels//16\<close>.
\<close>

definition GaborFilters_init ::
  "(int \<Rightarrow> int \<Rightarrow> nat \<times> nat \<Rightarrow> error option) \<Rightarrow> (nat \<Rightarrow> nat list \<Rightarrow> real) \<Rightarrow>
   int \<Rightarrow> int \<Rightarrow> nat \<times> nat \<Rightarrow> int \<Rightarrow> error + GaborFilters" where
  "GaborFilters_init super_init rand ic oc ks n_thetas_arg =
     (let n = oc div 16 in
      case super_init ic oc ks of
        Some e \<Rightarrow> Inl e
      | None \<Rightarrow>
      (case param_rand (rand 0) oc n ic of
        Inl e \<Rightarrow> Inl e
      | Inr r0 \<Rightarrow>
      (case param_rand (rand 1) oc n ic of
        Inl e \<Rightarrow> Inl e
      | Inr r1 \<Rightarrow>
      (case param_rand (rand 2) oc n ic of
        Inl e \<Rightarrow> Inl e
      | Inr r2 \<Rightarrow>
      (case param_rand (rand 3) oc n ic of
        Inl e \<Rightarrow> Inl e
      | Inr r3 \<Rightarrow>
      (case linspace 0 (2 * pi) n of
        Inl e \<Rightarrow> Inl e
      | Inr th \<Rightarrow>
          Inr \<lparr>in_channels = ic, out_channels = oc, kernel_size = ks, n_thetas = n,
               lambda = tmap (\<lambda>v. 1 / 10 + v * 32) r0,
               psi = tmap (\<lambda>v. v * pi / 2) r1,
               sigma = tmap (\<lambda>v. 1 / 10 + v * 10) r2,
               gamma = r3,
               thetas = th\<rparr>))))))"

section \<open>GaborFilters: kernel synthesis\<close>











section \<open>Dataset: the patch sampler\<close>

text \<open>
  A numpy array is its shape and its entries, read by position. The image is a
  three-dimensional array \<open>image[row][col][channel]\<close>, the ground truth a two-dimensional
  array of integer labels. The constructor never looks at a pixel value, so the type of
  the entries is left open there; item access converts them, and takes an image of
  finite numbers (\<open>real\<close>) and labels of an integer dtype (\<open>int\<close>).
\<close>

record 'a array2 =
  shape2 :: "nat \<times> nat"
  at2 :: "nat \<Rightarrow> nat \<Rightarrow> 'a"

record 'a array3 =
  shape3 :: "nat \<times> nat \<times> nat"
  at3 :: "nat \<Rightarrow> nat \<Rightarrow> nat \<Rightarrow> 'a"

text \<open>The dictionary \<^verbatim>\<open>hyperparams\<close>, with its two keys.\<close>

record hyperparams =
  hp_patch_size :: int
  hp_ignored_labels :: "int list"

record 'a Dataset =
  data :: "'a array3"
  label :: "int array2"
  patch_size :: int
  ignored_labels :: "int set"
  height :: nat
  width :: nat
  indices :: "(nat \<times> nat) list"
  labels :: "int list"

text \<open>\<^verbatim>\<open>np.ones_like(gt)\<close>, and one round \<^verbatim>\<open>mask[gt == l] = 0\<close> of the loop.\<close>

definition ones_like :: "int array2 \<Rightarrow> int array2" where
  "ones_like a = \<lparr>shape2 = shape2 a, at2 = (\<lambda>x y. 1)\<rparr>"

definition mask_out :: "int array2 \<Rightarrow> int \<Rightarrow> int array2 \<Rightarrow> int array2" where
  "mask_out gt l m =
     \<lparr>shape2 = shape2 m, at2 = (\<lambda>x y. if at2 gt x y = l then 0 else at2 m x y)\<rparr>"

text \<open>
  \<^verbatim>\<open>np.nonzero(mask)\<close>: the row and column positions of the non-zero entries, in
  row-major order, as two parallel arrays.
\<close>

definition nonzero :: "int array2 \<Rightarrow> nat list \<times> nat list" where
  "nonzero m =
     (let ps = [(x, y). x \<leftarrow> [0..<fst (shape2 m)], y \<leftarrow> [0..<snd (shape2 m)], at2 m x y \<noteq> 0]
      in (map fst ps, map snd ps))"

text \<open>
  \<^verbatim>\<open>Dataset.__init__(self, data, gt, hyperparams)\<close>. The loop over the set
  \<^verbatim>\<open>self.ignored_labels\<close> is a fold over the list the set was made of: a round only
  writes zeros, so neither order nor repetition changes the mask. No statement of the
  constructor raises.
\<close>

definition Dataset_init :: "'a array3 \<Rightarrow> int array2 \<Rightarrow> hyperparams \<Rightarrow> 'a Dataset" where
  "Dataset_init dat gt hp =
     (let mask = fold (mask_out gt) (hp_ignored_labels hp) (ones_like gt);
          (x_pos, y_pos) = nonzero mask;
          p = hp_patch_size hp div 2;
          idx = (if p > 0
                 then filter (\<lambda>(x, y). int x \<ge> p \<and> int x < int (fst (shape3 dat)) - p
                                  \<and> int y \<ge> p \<and> int y < int (fst (snd (shape3 dat))) - p)
                        (zip x_pos y_pos)
                 else zip x_pos y_pos)
      in \<lparr>data = dat, label = gt, patch_size = hp_patch_size hp,
          ignored_labels = set (hp_ignored_labels hp),
          height = fst (shape3 dat), width = fst (snd (shape3 dat)),
          indices = idx,
          labels = map (\<lambda>(x, y). at2 gt x y) idx\<rparr>)"

text \<open>
  \<^verbatim>\<open>Dataset.__len__\<close>: the body is blank in the source.
  Modelled from the spec: the size query "returns the number of valid coordinates. Must
  equal the length of the index sequence".
\<close>

definition Dataset_len :: "'a Dataset \<Rightarrow> nat" where
  "Dataset_len ds = length (indices ds)"

text \<open>
  The blank \<^verbatim>\<open>x, y = ...\<close> of \<^verbatim>\<open>__getitem__\<close>.
  Modelled from the spec: item access takes "an integer \<open>i\<close> in \<open>[0, size)\<close>", works at
  "the stored coordinate for index \<open>i\<close>" and "fails with IndexError for \<open>i\<close> outside
  \<open>[0, size)\<close>".
\<close>

definition stored_coordinate :: "'a Dataset \<Rightarrow> int \<Rightarrow> error + nat \<times> nat" where
  "stored_coordinate ds i =
     (if 0 \<le> i \<and> i < int (length (indices ds)) then Inr (indices ds ! nat i)
      else Inl IndexError)"

text \<open>
  The two written lines that compute the extraction window:
  \<^verbatim>\<open>x1, y1 = x - self.patch_size // 2, y - self.patch_size // 2\<close> and
  \<^verbatim>\<open>x2, y2 = x1 + self.patch_size, y1 + self.patch_size\<close>.
\<close>

definition window :: "'a Dataset \<Rightarrow> nat \<times> nat \<Rightarrow> (int \<times> int) \<times> (int \<times> int)" where
  "window ds = (\<lambda>(x, y).
     let x1 = int x - patch_size ds div 2;
         y1 = int y - patch_size ds div 2;
         x2 = x1 + patch_size ds;
         y2 = y1 + patch_size ds
     in ((x1, y1), (x2, y2)))"

text \<open>
  Python's slice \<^verbatim>\<open>a[lo:hi]\<close> on an axis of length \<open>n\<close>: a negative bound counts from
  the end, and both bounds are clipped to \<open>[0, n]\<close>; the slice runs from the first
  position to the second and is empty when they are out of order.
\<close>

definition slice_indices :: "nat \<Rightarrow> int \<Rightarrow> int \<Rightarrow> nat \<times> nat" where
  "slice_indices n lo hi =
     (let clip = (\<lambda>k. if k < 0 then max (k + int n) 0 else min k (int n))
      in (nat (clip lo), nat (clip hi)))"

text \<open>
  The blank \<^verbatim>\<open>data = ...\<close> that follows the window.
  Modelled from the spec: "\<open>patch[c][dy][dx] = image[row - p + dy][col - p + dx][c]\<close> for
  \<open>p = patch_size // 2\<close>, \<open>dy, dx\<close> in \<open>[0, patch_size)\<close>", that is the rows \<open>x1\<close> to
  \<open>x2 - 1\<close> and the columns \<open>y1\<close> to \<open>y2 - 1\<close> of the image, all channels: the slice
  \<^verbatim>\<open>self.data[x1:x2, y1:y2]\<close>, still in the image's axis order.
\<close>

definition slice2 :: "'a array3 \<Rightarrow> int \<Rightarrow> int \<Rightarrow> int \<Rightarrow> int \<Rightarrow> 'a array3" where
  "slice2 a x1 x2 y1 y2 =
     (let (h, w, c) = shape3 a;
          (xs, xe) = slice_indices h x1 x2;
          (ys, ye) = slice_indices w y1 y2
      in \<lparr>shape3 = (xe - xs, ye - ys, c), at3 = (\<lambda>i j k. at3 a (xs + i) (ys + j) k)\<rparr>)"

text \<open>
  The blank \<^verbatim>\<open>label = ...\<close>.
  Modelled from the spec: "\<open>label = labels[row][col]\<close> at the stored coordinate", the read
  \<^verbatim>\<open>self.label[x, y]\<close>, which raises outside the array.
\<close>

definition read2 :: "'a array2 \<Rightarrow> nat \<Rightarrow> nat \<Rightarrow> error + 'a" where
  "read2 a x y =
     (if x < fst (shape2 a) \<and> y < snd (shape2 a) then Inr (at2 a x y) else Inl IndexError)"

text \<open>\<^verbatim>\<open>.transpose((2, 0, 1))\<close>: the channel axis comes first.\<close>

definition transpose_201 :: "'a array3 \<Rightarrow> 'a array3" where
  "transpose_201 a =
     (let (h, w, c) = shape3 a
      in \<lparr>shape3 = (c, h, w), at3 = (\<lambda>k i j. at3 a i j k)\<rparr>)"

text \<open>
  The cast \<^verbatim>\<open>dtype="float32"\<close> of a finite number: the nearest number with a 24-bit
  significand and an exponent from \<open>-126\<close> to \<open>127\<close>, a tie going to the even
  significand; below the smallest exponent the spacing stays \<open>2 powr -149\<close>, and a
  result of magnitude \<open>2 ^ 128\<close> or more is an infinity (\<open>Inf32 True\<close> the negative one).
\<close>

datatype float32 = Fin32 real | Inf32 bool

definition round_half_even :: "real \<Rightarrow> int" where
  "round_half_even r =
     (let f = \<lfloor>r\<rfloor>; d = r - of_int f
      in if d < 1 / 2 then f else if 1 / 2 < d then f + 1 else if even f then f else f + 1)"

definition to_float32 :: "real \<Rightarrow> float32" where
  "to_float32 x =
     (if x = 0 then Fin32 0
      else let e = max \<lfloor>log 2 \<bar>x\<bar>\<rfloor> (- 126);
               q = 2 powr of_int (e - 23);
               y = of_int (round_half_even (\<bar>x\<bar> / q)) * q
           in if 2 ^ 128 \<le> y then Inf32 (x < 0) else Fin32 (sgn x * y))"

text \<open>
  The cast \<^verbatim>\<open>dtype="int64"\<close> of a value of an integer dtype: the value modulo
  \<open>2 ^ 64\<close>, read as a signed 64-bit number.
\<close>

definition to_int64 :: "int \<Rightarrow> int" where
  "to_int64 v = (v + 2 ^ 63) mod 2 ^ 64 - 2 ^ 63"

text \<open>A change of dtype converts every entry and keeps the shape.\<close>

definition astype3 :: "('a \<Rightarrow> 'b) \<Rightarrow> 'a array3 \<Rightarrow> 'b array3" where
  "astype3 f a = \<lparr>shape3 = shape3 a, at3 = (\<lambda>i j k. f (at3 a i j k))\<rparr>"

text \<open>
  \<^verbatim>\<open>Dataset.__getitem__(self, i)\<close>, as a function of the values: the written lines are
  the window and \<^verbatim>\<open>np.asarray(np.copy(data).transpose((2, 0, 1)), dtype="float32")\<close>,
  \<^verbatim>\<open>np.asarray(np.copy(label), dtype="int64")\<close>; a copy has the values of its original.
  Modelled from the spec: the last two blanks (\<^verbatim>\<open>data = ...\<close>, \<^verbatim>\<open>label = ...\<close>, the
  conversion of the two numpy arrays into tensors) keep shape and values.
\<close>

definition Dataset_getitem :: "real Dataset \<Rightarrow> int \<Rightarrow> error + float32 array3 \<times> int" where
  "Dataset_getitem ds i =
     (case stored_coordinate ds i of
        Inl e \<Rightarrow> Inl e
      | Inr (x, y) \<Rightarrow>
          (let ((x1, y1), (x2, y2)) = window ds (x, y);
               dat = slice2 (data ds) x1 x2 y1 y2
           in case read2 (label ds) x y of
                Inl e \<Rightarrow> Inl e
              | Inr lab \<Rightarrow> Inr (astype3 to_float32 (transpose_201 dat), to_int64 lab)))"

text \<open>The scenario of the spec: a \<open>6\<times>6\<times>1\<close> image, labels all zero but a \<open>1\<close> at \<open>(3,3)\<close>.\<close>

definition scenario_image :: "real array3" where
  "scenario_image = \<lparr>shape3 = (6, 6, 1), at3 = (\<lambda>x y c. real (10 * x + y))\<rparr>"

definition scenario_labels :: "int array2" where
  "scenario_labels = \<lparr>shape2 = (6, 6), at2 = (\<lambda>x y. if x = 3 \<and> y = 3 then 1 else 0)\<rparr>"

section \<open>Dataset: item access with an explicit memory\<close>

text \<open>
  Who owns the buffer an array reads: the image or the labels array the sampler was
  built on, or a buffer allocated later, numbered in the order of allocation. The memory
  holds the sampler object, with the two source arrays it refers to, and the buffers
  allocated since.
\<close>

datatype ref = SourceImage | SourceLabels | Fresh nat

datatype buffer =
  Raster "real array3" | Array3 "float32 array3" | Array2 "int array2" | Scalar int

record memory =
  sampler :: "real Dataset"
  allocated :: "buffer list"

definition deref :: "memory \<Rightarrow> ref \<Rightarrow> buffer option" where
  "deref m r =
     (case r of
        SourceImage \<Rightarrow> Some (Raster (data (sampler m)))
      | SourceLabels \<Rightarrow> Some (Array2 (label (sampler m)))
      | Fresh k \<Rightarrow> if k < length (allocated m) then Some (allocated m ! k) else None)"

text \<open>\<^verbatim>\<open>np.copy(a)\<close>: a new buffer with the values of \<open>a\<close>; nothing else changes.\<close>

definition np_copy :: "memory \<Rightarrow> buffer \<Rightarrow> ref \<times> memory" where
  "np_copy m b = (Fresh (length (allocated m)), m\<lparr>allocated := allocated m @ [b]\<rparr>)"

text \<open>
  \<^verbatim>\<open>Dataset.__getitem__\<close> as it acts on the memory. The statements before the two
  copies only read (the slice is a view of the image, the label a number read from the
  labels); their values are those of \<open>Dataset_getitem\<close>, and an exception leaves the
  memory as it was. \<^verbatim>\<open>np.copy(data)\<close> and \<^verbatim>\<open>np.copy(label)\<close> then allocate, in this
  order; the transposition, the change of dtype and the conversion into tensors read
  the copy, so each buffer is kept as the returned tensor reads it. No statement
  assigns to an attribute of \<^verbatim>\<open>self\<close> or writes into an existing array.
\<close>

definition Dataset_getitem_mem ::
  "memory \<Rightarrow> int \<Rightarrow> error + (ref \<times> ref) \<times> memory" where
  "Dataset_getitem_mem m i =
     (case Dataset_getitem (sampler m) i of
        Inl e \<Rightarrow> Inl e
      | Inr (patch, lab) \<Rightarrow>
          (let (pr, m1) = np_copy m (Array3 patch);
               (lr, m2) = np_copy m1 (Scalar lab)
           in Inr ((pr, lr), m2)))"

section \<open>GaborFilters: properties of construction\<close>

lemma param_rand_zero: "param_rand u oc 0 ic = Inl ZeroDivisionError"
  by (simp add: param_rand_def py_floordiv_def)

lemma param_rand_ok:
  assumes "n \<noteq> 0" and "0 \<le> oc div n" and "0 \<le> ic"
  shows "param_rand u oc n ic = Inr \<lparr>shape = [nat (oc div n), 1, nat ic, 1, 1], elems = u\<rparr>"
  using assms by (simp add: param_rand_def py_floordiv_def torch_rand_def)

lemma init_ok:
  assumes sup: "super_init ic oc ks = None" and oc: "16 \<le> oc" and ic: "0 \<le> ic"
  shows "GaborFilters_init super_init rand ic oc ks m =
     Inr \<lparr>in_channels = ic, out_channels = oc, kernel_size = ks, n_thetas = oc div 16,
          lambda = tmap (\<lambda>v. 1 / 10 + v * 32)
            \<lparr>shape = [nat (oc div (oc div 16)), 1, nat ic, 1, 1], elems = rand 0\<rparr>,
          psi = tmap (\<lambda>v. v * pi / 2)
            \<lparr>shape = [nat (oc div (oc div 16)), 1, nat ic, 1, 1], elems = rand 1\<rparr>,
          sigma = tmap (\<lambda>v. 1 / 10 + v * 10)
            \<lparr>shape = [nat (oc div (oc div 16)), 1, nat ic, 1, 1], elems = rand 2\<rparr>,
          gamma = \<lparr>shape = [nat (oc div (oc div 16)), 1, nat ic, 1, 1], elems = rand 3\<rparr>,
          thetas = \<lparr>shape = [nat (oc div 16)],
                    elems = (\<lambda>idx. case idx of
                        [i] \<Rightarrow> if oc div 16 = 1 then 0
                               else 0 + real i * ((2 * pi - 0) / real_of_int (oc div 16 - 1))
                      | _ \<Rightarrow> 0)\<rparr>\<rparr>"
proof -
  from oc have n: "1 \<le> oc div 16" by simp
  then have n0: "oc div 16 \<noteq> 0" by simp
  from oc n have g: "0 \<le> oc div (oc div 16)"
    by (simp add: pos_imp_zdiv_nonneg_iff)
  have lin: "\<not> oc div 16 < 0" using n by simp
  show ?thesis
    unfolding GaborFilters_init_def Let_def
    by (simp add: sup param_rand_ok [OF n0 g ic] linspace_def lin)
qed

text \<open>
  C9. For every \<open>out_channels\<close> with \<open>0 < out_channels < 16\<close>, construction raises a
  division-by-zero error: the orientation count \<open>out_channels // 16\<close> is \<open>0\<close> and is the
  divisor in the first initial-value line. The framework constructor called before that
  line is taken to have returned.
\<close>

theorem C9_small_out_channels_zero_division:
  assumes "super_init ic oc ks = None" and "0 < oc" and "oc < 16"
  shows "GaborFilters_init super_init rand ic oc ks m = Inl ZeroDivisionError"
proof -
  from assms(2,3) have "oc div 16 = 0" by simp
  then show ?thesis
    unfolding GaborFilters_init_def Let_def
    by (simp add: assms(1) param_rand_zero)
qed

theorem C9_witness:
  "GaborFilters_init (\<lambda>ic oc ks. None) (\<lambda>k idx. 0) 3 8 (11, 11) 5 = Inl ZeroDivisionError"
  using C9_small_out_channels_zero_division
    [of "\<lambda>ic oc ks. None" 3 8 "(11, 11)" "\<lambda>k idx. 0" 5]
  by simp

text \<open>
  What a successful construction leaves in the object: the orientation count is
  \<open>out_channels // 16\<close>, it is at least \<open>1\<close>, and the angle vector is the result of
  \<^verbatim>\<open>torch.linspace(0., 2*math.pi, self.n_thetas)\<close>.
\<close>

lemma init_Inr_thetas:
  assumes "GaborFilters_init super_init rand ic oc ks m = Inr g"
  shows "n_thetas g = oc div 16 \<and> 1 \<le> oc div 16
       \<and> linspace 0 (2 * pi) (oc div 16) = Inr (thetas g)"
proof -
  have nz: "oc div 16 \<noteq> 0"
  proof
    assume "oc div 16 = 0"
    then have "GaborFilters_init super_init rand ic oc ks m \<noteq> Inr g"
      unfolding GaborFilters_init_def Let_def
      by (simp add: param_rand_zero split: option.splits)
    with assms show False by simp
  qed
  from assms have "n_thetas g = oc div 16 \<and> linspace 0 (2 * pi) (oc div 16) = Inr (thetas g)"
    unfolding GaborFilters_init_def Let_def
    by (auto split: option.splits sum.splits)
  moreover from this have "\<not> oc div 16 < 0"
    by (auto simp: linspace_def split: if_splits)
  ultimately show ?thesis using nz by simp
qed




text \<open>
  C3 (as the claim states it, refuted). With \<open>out_channels = 32\<close> the angle vector has
  the two entries \<open>0\<close> and \<open>2\<pi>\<close>: the second is not \<open>1 \<cdot> (2\<pi> / 2)\<close>, and the two
  coincide modulo \<open>2\<pi>\<close>.
\<close>

theorem C3_counterexample:
  "(case GaborFilters_init (\<lambda>ic oc ks. None) (\<lambda>k idx. 0) 3 32 (11, 11) 16 of
      Inl e \<Rightarrow> False
    | Inr g \<Rightarrow> n_thetas g = 2 \<and> shape (thetas g) = [2]
        \<and> elems (thetas g) [0] = 0
        \<and> elems (thetas g) [1] = 2 * pi
        \<and> elems (thetas g) [1] \<noteq> real 1 * (2 * pi / real_of_int (n_thetas g))
        \<and> elems (thetas g) [1] - elems (thetas g) [0] = 1 * (2 * pi))"
  by (simp add: init_ok [of "\<lambda>ic oc ks. None" 3 32 "(11, 11)"])

text \<open>
  C3 (amended). After a successful construction the angle vector has length
  \<open>self.n_thetas = out_channels // 16\<close>, which is at least \<open>1\<close>. Its angles are evenly
  spaced over the closed interval \<open>[0, 2\<pi>]\<close>: with two or more angles the i-th is
  \<open>i \<cdot> 2\<pi> / (n_thetas - 1)\<close>, so the last is \<open>2\<pi>\<close> and coincides with the first
  modulo \<open>2\<pi>\<close>; a single angle is \<open>0\<close>.
\<close>

theorem C3_thetas_closed_interval:
  assumes "GaborFilters_init super_init rand ic oc ks m = Inr g"
  shows "n_thetas g = oc div 16 \<and> 1 \<le> n_thetas g
       \<and> shape (thetas g) = [nat (n_thetas g)]
       \<and> (\<forall>i. 2 \<le> n_thetas g \<and> i < nat (n_thetas g) \<longrightarrow>
             elems (thetas g) [i] = real i * (2 * pi / real_of_int (n_thetas g - 1)))
       \<and> (2 \<le> n_thetas g \<longrightarrow> elems (thetas g) [nat (n_thetas g) - 1] = 2 * pi)
       \<and> (n_thetas g = 1 \<longrightarrow> elems (thetas g) [0] = 0)"
proof -
  from init_Inr_thetas [OF assms]
  have n: "n_thetas g = oc div 16" and pos: "1 \<le> oc div 16"
    and lin: "linspace 0 (2 * pi) (oc div 16) = Inr (thetas g)"
    by simp_all
  from pos have nn: "\<not> oc div 16 < 0" by simp
  from lin nn have th: "thetas g = \<lparr>shape = [nat (oc div 16)],
      elems = (\<lambda>idx. case idx of
          [i] \<Rightarrow> if oc div 16 = 1 then 0
                 else 0 + real i * ((2 * pi - 0) / real_of_int (oc div 16 - 1))
        | _ \<Rightarrow> 0)\<rparr>"
    by (simp add: linspace_def)
  have last: "2 \<le> oc div 16 \<Longrightarrow>
      real (nat (oc div 16) - 1) * (2 * pi / real_of_int (oc div 16 - 1)) = 2 * pi"
  proof -
    assume two: "2 \<le> oc div 16"
    then have "real (nat (oc div 16) - 1) = real_of_int (oc div 16 - 1)"
      by (simp add: of_nat_diff)
    moreover from two have "real_of_int (oc div 16 - 1) \<noteq> 0" by simp
    ultimately show ?thesis by simp
  qed
  show ?thesis
    using pos last by (simp add: n th)
qed

theorem C3_witness:
  "(case GaborFilters_init (\<lambda>ic oc ks. None) (\<lambda>k idx. 0) 3 48 (11, 11) 16 of
      Inl e \<Rightarrow> False
    | Inr g \<Rightarrow> n_thetas g = 3 \<and> shape (thetas g) = [3]
        \<and> elems (thetas g) [0] = 0
        \<and> elems (thetas g) [1] = pi
        \<and> elems (thetas g) [2] = 2 * pi)"
proof -
  obtain g where g: "GaborFilters_init (\<lambda>ic oc ks. None) (\<lambda>k idx. 0) 3 48 (11, 11) 16 = Inr g"
    using init_ok [of "\<lambda>ic oc ks. None" 3 48 "(11, 11)" "\<lambda>k idx. 0" 16] by simp
  from C3_thetas_closed_interval [OF g]
  have n: "n_thetas g = 3" and sh: "shape (thetas g) = [nat (n_thetas g)]"
    and el: "\<And>i. 2 \<le> n_thetas g \<and> i < nat (n_thetas g) \<Longrightarrow>
      elems (thetas g) [i] = real i * (2 * pi / real_of_int (n_thetas g - 1))"
    by simp_all
  from el [of 0] el [of 1] el [of 2] n sh show ?thesis
    by (simp add: g)
qed

section \<open>Dataset: construction and item access\<close>

lemma fold_mask_out:
  "shape2 (fold (mask_out gt) ls m) = shape2 m \<and>
   at2 (fold (mask_out gt) ls m) x y = (if at2 gt x y \<in> set ls then 0 else at2 m x y)"
  by (induction ls arbitrary: m) (auto simp: mask_out_def)

lemma zip_nonzero:
  "zip (fst (nonzero m)) (snd (nonzero m)) =
     [(x, y). x \<leftarrow> [0..<fst (shape2 m)], y \<leftarrow> [0..<snd (shape2 m)], at2 m x y \<noteq> 0]"
  by (simp add: nonzero_def Let_def zip_map_fst_snd)

lemma set_zip_nonzero:
  "(r, c) \<in> set (zip (fst (nonzero m)) (snd (nonzero m))) \<longleftrightarrow>
     r < fst (shape2 m) \<and> c < snd (shape2 m) \<and> at2 m r c \<noteq> 0"
  unfolding zip_nonzero by auto

lemma indices_init:
  "indices (Dataset_init dat gt hp) =
     (let cand = zip (fst (nonzero (fold (mask_out gt) (hp_ignored_labels hp) (ones_like gt))))
                     (snd (nonzero (fold (mask_out gt) (hp_ignored_labels hp) (ones_like gt))));
          p = hp_patch_size hp div 2
      in if p > 0
         then filter (\<lambda>(x, y). int x \<ge> p \<and> int x < int (fst (shape3 dat)) - p
                                  \<and> int y \<ge> p \<and> int y < int (fst (snd (shape3 dat))) - p) cand
         else cand)"
  by (simp add: Dataset_init_def Let_def split: prod.splits)

lemma fields_init:
  "data (Dataset_init dat gt hp) = dat"
  "label (Dataset_init dat gt hp) = gt"
  "patch_size (Dataset_init dat gt hp) = hp_patch_size hp"
  "ignored_labels (Dataset_init dat gt hp) = set (hp_ignored_labels hp)"
  "height (Dataset_init dat gt hp) = fst (shape3 dat)"
  "width (Dataset_init dat gt hp) = fst (snd (shape3 dat))"
  "labels (Dataset_init dat gt hp) = map (\<lambda>(x, y). at2 gt x y) (indices (Dataset_init dat gt hp))"
  by (simp_all add: Dataset_init_def Let_def split: prod.splits)

lemma indices_iff:
  "(r, c) \<in> set (indices (Dataset_init dat gt hp)) \<longleftrightarrow>
     r < fst (shape2 gt) \<and> c < snd (shape2 gt)
     \<and> at2 gt r c \<notin> set (hp_ignored_labels hp)
     \<and> (0 < hp_patch_size hp div 2 \<longrightarrow>
          hp_patch_size hp div 2 \<le> int r \<and> int r < int (fst (shape3 dat)) - hp_patch_size hp div 2
        \<and> hp_patch_size hp div 2 \<le> int c \<and> int c < int (fst (snd (shape3 dat))) - hp_patch_size hp div 2)"
  by (auto simp: indices_init Let_def set_zip_nonzero fold_mask_out ones_like_def)

lemma slice_indices_inside:
  assumes "0 \<le> lo" and "lo \<le> hi" and "hi \<le> int n"
  shows "slice_indices n lo hi = (nat lo, nat hi)"
  using assms by (simp add: slice_indices_def Let_def min_def)

lemma getitem_at_index:
  assumes i: "0 \<le> i" "i < int (length (indices (Dataset_init dat gt hp)))"
    and rc: "indices (Dataset_init dat gt hp) ! nat i = (row, col)"
  shows "Dataset_getitem (Dataset_init dat gt hp) i =
     Inr (astype3 to_float32 (transpose_201 (slice2 dat
            (int row - hp_patch_size hp div 2)
            (int row - hp_patch_size hp div 2 + hp_patch_size hp)
            (int col - hp_patch_size hp div 2)
            (int col - hp_patch_size hp div 2 + hp_patch_size hp))),
          to_int64 (at2 gt row col))"
proof -
  from i have "nat i < length (indices (Dataset_init dat gt hp))" by simp
  then have "indices (Dataset_init dat gt hp) ! nat i \<in> set (indices (Dataset_init dat gt hp))"
    by (rule nth_mem)
  with rc have "(row, col) \<in> set (indices (Dataset_init dat gt hp))" by simp
  then have "row < fst (shape2 gt)" and "col < snd (shape2 gt)"
    by (simp_all add: indices_iff)
  then have rd: "read2 gt row col = Inr (at2 gt row col)"
    by (simp add: read2_def)
  from i rc have sc: "stored_coordinate (Dataset_init dat gt hp) i = Inr (row, col)"
    by (simp add: stored_coordinate_def)
  show ?thesis
    by (simp add: Dataset_getitem_def sc window_def Let_def fields_init rd)
qed

lemma window_inside:
  assumes mem: "(row, col) \<in> set (indices (Dataset_init dat gt hp))"
    and coreg: "shape2 gt = (fst (shape3 dat), fst (snd (shape3 dat)))"
    and ps: "0 \<le> hp_patch_size hp"
  shows "0 \<le> int row - hp_patch_size hp div 2"
    and "int row - hp_patch_size hp div 2 + hp_patch_size hp \<le> int (fst (shape3 dat))"
    and "0 \<le> int col - hp_patch_size hp div 2"
    and "int col - hp_patch_size hp div 2 + hp_patch_size hp \<le> int (fst (snd (shape3 dat)))"
  using mem coreg ps unfolding indices_iff by auto

text \<open>
  C2 (as the claim states it, refuted). Construction returns a sampler for an even
  patch size (\<open>2\<close>, on a \<open>4\<times>4\<close> raster: the four inner pixels), for a negative patch
  size (\<open>-1\<close>, on a \<open>2\<times>2\<close> raster: every pixel) and for a \<open>1\<times>1\<close> image with \<open>2\<times>2\<close>
  labels (every position of the labels).
\<close>

theorem C2_counterexample:
  "indices (Dataset_init \<lparr>shape3 = (4, 4, 1), at3 = (\<lambda>x y c. (0::int))\<rparr>
                         \<lparr>shape2 = (4, 4), at2 = (\<lambda>x y. 1)\<rparr>
                         \<lparr>hp_patch_size = 2, hp_ignored_labels = [0]\<rparr>)
     = [(1, 1), (1, 2), (2, 1), (2, 2)]
   \<and> indices (Dataset_init \<lparr>shape3 = (2, 2, 1), at3 = (\<lambda>x y c. (0::int))\<rparr>
                         \<lparr>shape2 = (2, 2), at2 = (\<lambda>x y. 1)\<rparr>
                         \<lparr>hp_patch_size = - 1, hp_ignored_labels = [0]\<rparr>)
     = [(0, 0), (0, 1), (1, 0), (1, 1)]
   \<and> indices (Dataset_init \<lparr>shape3 = (1, 1, 1), at3 = (\<lambda>x y c. (0::int))\<rparr>
                         \<lparr>shape2 = (2, 2), at2 = (\<lambda>x y. 1)\<rparr>
                         \<lparr>hp_patch_size = 1, hp_ignored_labels = [0]\<rparr>)
     = [(0, 0), (0, 1), (1, 0), (1, 1)]"
  by (simp add: indices_init zip_nonzero Let_def fold_mask_out ones_like_def mask_out_def upt_conv_Cons)

text \<open>
  C2 (amended). Construction validates nothing and raises nothing: for every patch
  size, negative, zero, even or odd, and every image and labels arrays, of equal or of
  different spatial dimensions, it returns a sampler that stores its arguments
  unchanged. The index set holds only positions of the labels array with a label that is
  not ignored, all of them when \<open>patch_size // 2 \<le> 0\<close>, and the label sequence is
  parallel to it.
\<close>

theorem C2_construction_validates_nothing:
  "data (Dataset_init dat gt hp) = dat
   \<and> label (Dataset_init dat gt hp) = gt
   \<and> patch_size (Dataset_init dat gt hp) = hp_patch_size hp
   \<and> height (Dataset_init dat gt hp) = fst (shape3 dat)
   \<and> width (Dataset_init dat gt hp) = fst (snd (shape3 dat))
   \<and> (\<forall>(r, c) \<in> set (indices (Dataset_init dat gt hp)).
         r < fst (shape2 gt) \<and> c < snd (shape2 gt) \<and> at2 gt r c \<notin> set (hp_ignored_labels hp))
   \<and> (hp_patch_size hp div 2 \<le> 0 \<longrightarrow>
         set (indices (Dataset_init dat gt hp)) =
           {(r, c). r < fst (shape2 gt) \<and> c < snd (shape2 gt)
                    \<and> at2 gt r c \<notin> set (hp_ignored_labels hp)})
   \<and> labels (Dataset_init dat gt hp) =
       map (\<lambda>(x, y). at2 gt x y) (indices (Dataset_init dat gt hp))"
proof -
  let ?ds = "Dataset_init dat gt hp"
  have inside: "\<forall>(r, c) \<in> set (indices ?ds).
      r < fst (shape2 gt) \<and> c < snd (shape2 gt) \<and> at2 gt r c \<notin> set (hp_ignored_labels hp)"
    by (auto simp: indices_iff)
  have everything: "set (indices ?ds) =
      {(r, c). r < fst (shape2 gt) \<and> c < snd (shape2 gt)
               \<and> at2 gt r c \<notin> set (hp_ignored_labels hp)}"
    if "hp_patch_size hp div 2 \<le> 0"
    using that by (auto simp: indices_iff)
  from inside everything show ?thesis
    by (simp add: fields_init)
qed

theorem C2_witness:
  "patch_size (Dataset_init \<lparr>shape3 = (1, 1, 1), at3 = (\<lambda>x y c. (0::int))\<rparr>
                         \<lparr>shape2 = (2, 2), at2 = (\<lambda>x y. 1)\<rparr>
                         \<lparr>hp_patch_size = - 2, hp_ignored_labels = [0]\<rparr>) = - 2
   \<and> set (indices (Dataset_init \<lparr>shape3 = (1, 1, 1), at3 = (\<lambda>x y c. (0::int))\<rparr>
                         \<lparr>shape2 = (2, 2), at2 = (\<lambda>x y. 1)\<rparr>
                         \<lparr>hp_patch_size = - 2, hp_ignored_labels = [0]\<rparr>))
      = {(r, c). r < 2 \<and> c < 2}"
  using C2_construction_validates_nothing
    [of "\<lparr>shape3 = (1, 1, 1), at3 = (\<lambda>x y c. (0::int))\<rparr>"
        "\<lparr>shape2 = (2, 2), at2 = (\<lambda>x y. 1)\<rparr>"
        "\<lparr>hp_patch_size = - 2, hp_ignored_labels = [0]\<rparr>"]
  by simp

text \<open>
  C4. For the image, the labels, the patch size and the list of ignored labels given to
  the constructor, the index set contains \<open>(row, col)\<close> exactly when it is a position of
  the labels array whose label is not among the ignored ones and, when
  \<open>p = patch_size // 2\<close> is positive, \<open>p \<le> row < height - p\<close> and
  \<open>p \<le> col < width - p\<close> for the height and width of the image; with \<open>p \<le> 0\<close>, so
  with patch size \<open>0\<close>, there is no border exclusion. In the scenario (\<open>6\<times>6\<close>, nothing
  ignored, patch size \<open>3\<close>) the index set is the \<open>16\<close> coordinates with row and column
  in \<open>[1, 4]\<close>.
\<close>

theorem C4_index_set:
  "((row, col) \<in> set (indices (Dataset_init dat gt hp)) \<longleftrightarrow>
      row < fst (shape2 gt) \<and> col < snd (shape2 gt)
      \<and> at2 gt row col \<notin> set (hp_ignored_labels hp)
      \<and> (0 < hp_patch_size hp div 2 \<longrightarrow>
            hp_patch_size hp div 2 \<le> int row
          \<and> int row < int (fst (shape3 dat)) - hp_patch_size hp div 2
          \<and> hp_patch_size hp div 2 \<le> int col
          \<and> int col < int (fst (snd (shape3 dat))) - hp_patch_size hp div 2))
   \<and> indices (Dataset_init scenario_image scenario_labels
                 \<lparr>hp_patch_size = 3, hp_ignored_labels = []\<rparr>)
      = [(1, 1), (1, 2), (1, 3), (1, 4), (2, 1), (2, 2), (2, 3), (2, 4),
         (3, 1), (3, 2), (3, 3), (3, 4), (4, 1), (4, 2), (4, 3), (4, 4)]"
proof -
  have scen: "indices (Dataset_init scenario_image scenario_labels
                 \<lparr>hp_patch_size = 3, hp_ignored_labels = []\<rparr>)
      = [(1, 1), (1, 2), (1, 3), (1, 4), (2, 1), (2, 2), (2, 3), (2, 4),
         (3, 1), (3, 2), (3, 3), (3, 4), (4, 1), (4, 2), (4, 3), (4, 4)]"
    by (simp add: indices_init zip_nonzero Let_def ones_like_def
        scenario_image_def scenario_labels_def upt_conv_Cons)
  show ?thesis
    unfolding indices_iff using scen by simp
qed

theorem C4_witness:
  "(3, 3) \<in> set (indices (Dataset_init scenario_image scenario_labels
                 \<lparr>hp_patch_size = 3, hp_ignored_labels = []\<rparr>))
   \<and> (0, 3) \<notin> set (indices (Dataset_init scenario_image scenario_labels
                 \<lparr>hp_patch_size = 3, hp_ignored_labels = []\<rparr>))
   \<and> (2, 2) \<notin> set (indices (Dataset_init scenario_image scenario_labels
                 \<lparr>hp_patch_size = 3, hp_ignored_labels = [0]\<rparr>))
   \<and> (3, 3) \<in> set (indices (Dataset_init scenario_image scenario_labels
                 \<lparr>hp_patch_size = 3, hp_ignored_labels = [0]\<rparr>))"
  using C4_index_set [of 3 3 scenario_image scenario_labels
      "\<lparr>hp_patch_size = 3, hp_ignored_labels = []\<rparr>"]
    C4_index_set [of 0 3 scenario_image scenario_labels
      "\<lparr>hp_patch_size = 3, hp_ignored_labels = []\<rparr>"]
    C4_index_set [of 2 2 scenario_image scenario_labels
      "\<lparr>hp_patch_size = 3, hp_ignored_labels = [0]\<rparr>"]
    C4_index_set [of 3 3 scenario_image scenario_labels
      "\<lparr>hp_patch_size = 3, hp_ignored_labels = [0]\<rparr>"]
  by (simp add: scenario_image_def scenario_labels_def)

lemma shape3_slice2:
  "shape3 (slice2 a x1 x2 y1 y2) =
     (snd (slice_indices (fst (shape3 a)) x1 x2) - fst (slice_indices (fst (shape3 a)) x1 x2),
      snd (slice_indices (fst (snd (shape3 a))) y1 y2) - fst (slice_indices (fst (snd (shape3 a))) y1 y2),
      snd (snd (shape3 a)))"
  by (simp add: slice2_def Let_def split: prod.splits)

lemma at3_slice2:
  "at3 (slice2 a x1 x2 y1 y2) i j k =
     at3 a (fst (slice_indices (fst (shape3 a)) x1 x2) + i)
           (fst (slice_indices (fst (snd (shape3 a))) y1 y2) + j) k"
  by (simp add: slice2_def Let_def split: prod.splits)

lemma shape3_transpose: "shape3 (transpose_201 a) = (snd (snd (shape3 a)), fst (shape3 a), fst (snd (shape3 a)))"
  by (simp add: transpose_201_def split: prod.splits)

lemma at3_transpose: "at3 (transpose_201 a) k i j = at3 a i j k"
  by (simp add: transpose_201_def split: prod.splits)

lemma shape3_astype: "shape3 (astype3 f a) = shape3 a"
  by (simp add: astype3_def)

lemma at3_astype: "at3 (astype3 f a) i j k = f (at3 a i j k)"
  by (simp add: astype3_def)

text \<open>
  The two casts: an integer of magnitude at most \<open>2 ^ 24\<close> is a float32 number, the
  integer \<open>2 ^ 24 + 1\<close> is a tie and goes to \<open>2 ^ 24\<close>; a label in the int64 range is
  kept, the label \<open>2 ^ 63\<close> wraps.
\<close>

lemma round_half_even_of_int: "round_half_even (of_int z) = z"
  by (simp add: round_half_even_def)

lemma to_float32_exact:
  assumes nz: "x \<noteq> 0"
    and q: "\<bar>x\<bar> / (2 powr of_int (max \<lfloor>log 2 \<bar>x\<bar>\<rfloor> (- 126) - 23)) = of_int z"
    and fin: "\<bar>x\<bar> < 2 ^ 128"
  shows "to_float32 x = Fin32 x"
proof -
  let ?q = "2 powr of_int (max \<lfloor>log 2 \<bar>x\<bar>\<rfloor> (- 126) - 23) :: real"
  have qpos: "0 < ?q" by simp
  have "of_int (round_half_even (\<bar>x\<bar> / ?q)) * ?q = of_int z * ?q"
    by (simp only: q round_half_even_of_int)
  also have "\<dots> = \<bar>x\<bar>"
    using q qpos by (simp add: field_simps)
  finally have y: "of_int (round_half_even (\<bar>x\<bar> / ?q)) * ?q = \<bar>x\<bar>" .
  have sg: "sgn x * \<bar>x\<bar> = x" by (simp add: sgn_real_def)
  show ?thesis
    unfolding to_float32_def Let_def
    using nz fin by (simp only: y sg if_False) simp
qed

lemma floor_log2_small:
  fixes a :: int
  assumes "1 \<le> a" and "a \<le> 2 ^ 24"
  shows "0 \<le> \<lfloor>log 2 (real_of_int a)\<rfloor>" and "\<lfloor>log 2 (real_of_int a)\<rfloor> \<le> 24"
proof -
  from assms(1) have "0 \<le> log 2 (real_of_int a)" by simp
  then show "0 \<le> \<lfloor>log 2 (real_of_int a)\<rfloor>" by simp
  from assms have "real_of_int a \<le> 2 powr 24" by simp
  with assms(1) have "log 2 (real_of_int a) \<le> 24"
    by (simp add: log_le_iff)
  then show "\<lfloor>log 2 (real_of_int a)\<rfloor> \<le> 24"
    by (simp add: floor_le_iff)
qed

lemma to_float32_small_int:
  fixes n :: int
  assumes "\<bar>n\<bar> \<le> 2 ^ 24"
  shows "to_float32 (of_int n) = Fin32 (of_int n)"
proof (cases "n = 0")
  case True
  then show ?thesis by (simp add: to_float32_def)
next
  case False
  let ?a = "\<bar>n\<bar>"
  let ?e = "\<lfloor>log 2 (real_of_int ?a)\<rfloor>"
  from False have a1: "1 \<le> ?a" by simp
  note eb = floor_log2_small [OF a1 assms]
  have apos: "0 < real_of_int ?a" using a1 by simp
  have two: "(1::real) < 2" by simp
  from floor_log_eq_powr_iff [OF apos two, of ?e, THEN iffD1, OF refl]
  have pw: "2 powr of_int ?e \<le> real_of_int ?a" ..
  have mx: "max ?e (- 126) = ?e" using eb(1) by simp
  have "\<exists>z. real_of_int ?a / (2 powr of_int (?e - 23)) = of_int z"
  proof (cases "?e \<le> 23")
    case True
    then have "(2::real) powr of_int (?e - 23) = 1 / 2 ^ nat (23 - ?e)"
    proof -
      have "(2::real) powr of_int (?e - 23) = 2 powr (- real (nat (23 - ?e)))"
        using True by simp
      also have "\<dots> = 1 / 2 powr real (nat (23 - ?e))"
        by (simp add: powr_minus_divide)
      also have "\<dots> = 1 / 2 ^ nat (23 - ?e)"
        by (simp add: powr_realpow)
      finally show ?thesis .
    qed
    then have "real_of_int ?a / (2 powr of_int (?e - 23)) = of_int (?a * 2 ^ nat (23 - ?e))"
      by simp
    then show ?thesis by (rule exI)
  next
    case False
    with eb(2) have e24: "?e = 24" by linarith
    with pw have "2 ^ 24 \<le> real_of_int ?a" by simp
    then have "2 ^ 24 \<le> ?a" by (simp only: numeral_power_le_of_int_cancel_iff)
    with assms have a: "?a = 2 ^ 24" by simp
    have "real_of_int ?a / (2 powr of_int (?e - 23)) = of_int (2 ^ 23)"
      unfolding e24 by (simp only: a) simp
    then show ?thesis by (rule exI)
  qed
  then obtain z where z: "real_of_int ?a / (2 powr of_int (?e - 23)) = of_int z" ..
  have ab: "\<bar>real_of_int n\<bar> = real_of_int ?a" by simp
  have fin: "\<bar>real_of_int n\<bar> < 2 ^ 128"
  proof -
    from assms have "real_of_int ?a \<le> 2 ^ 24" by (metis of_int_le_numeral_power_cancel_iff of_int_abs)
    then show ?thesis by (simp only: ab) simp
  qed
  show ?thesis
  proof (rule to_float32_exact [where z = z])
    show "real_of_int n \<noteq> 0" using False by simp
    show "\<bar>real_of_int n\<bar> / 2 powr real_of_int (max \<lfloor>log 2 \<bar>real_of_int n\<bar>\<rfloor> (- 126) - 23) = real_of_int z"
      by (simp only: ab mx z)
    show "\<bar>real_of_int n\<bar> < 2 ^ 128" by (rule fin)
  qed
qed

lemma to_float32_tie: "to_float32 16777217 = Fin32 16777216"
proof -
  have e: "\<lfloor>log 2 (16777217::real)\<rfloor> = 24"
    by (simp add: floor_log_eq_powr_iff)
  have r: "round_half_even (16777217 / 2) = 8388608"
  proof -
    have f: "\<lfloor>(16777217::real) / 2\<rfloor> = 8388608" by linarith
    show ?thesis by (simp add: round_half_even_def Let_def f)
  qed
  show ?thesis
    by (simp add: to_float32_def Let_def e r)
qed

lemma to_int64_in_range: "- (2 ^ 63) \<le> v \<Longrightarrow> v < 2 ^ 63 \<Longrightarrow> to_int64 v = v"
  by (simp add: to_int64_def)

lemma to_int64_wrap: "to_int64 (2 ^ 63) = - (2 ^ 63)"
  by (simp add: to_int64_def)

lemma scenario_indices:
  "indices (Dataset_init scenario_image scenario_labels
                 \<lparr>hp_patch_size = 3, hp_ignored_labels = []\<rparr>)
      = [(1, 1), (1, 2), (1, 3), (1, 4), (2, 1), (2, 2), (2, 3), (2, 4),
         (3, 1), (3, 2), (3, 3), (3, 4), (4, 1), (4, 2), (4, 3), (4, 4)]"
  by (simp add: indices_init zip_nonzero Let_def ones_like_def
        scenario_image_def scenario_labels_def upt_conv_Cons)

text \<open>
  C5 (as the claim states it, refuted). On a \<open>1\<times>1\<close> image with the entry \<open>2 ^ 24 + 1\<close>
  and the label \<open>2 ^ 63\<close>, patch size \<open>1\<close>, item access at index \<open>0\<close> returns the patch
  entry \<open>2 ^ 24\<close>, not the image entry, and the label \<open>-(2 ^ 63)\<close>, not the stored
  label. On a \<open>1\<times>1\<close> image with \<open>2\<times>2\<close> labels and patch size \<open>1\<close>, which the constructor
  accepts, the position \<open>(1, 1)\<close> is sampled at index \<open>3\<close>, the slice is clipped to the
  image and the patch has no entry at all.
\<close>

theorem C5_counterexample:
  "(case Dataset_getitem
           (Dataset_init \<lparr>shape3 = (1, 1, 1), at3 = (\<lambda>x y c. 16777217)\<rparr>
                         \<lparr>shape2 = (1, 1), at2 = (\<lambda>x y. 2 ^ 63)\<rparr>
                         \<lparr>hp_patch_size = 1, hp_ignored_labels = []\<rparr>) 0 of
      Inl e \<Rightarrow> False
    | Inr (patch, lab) \<Rightarrow>
        shape3 patch = (1, 1, 1) \<and> at3 patch 0 0 0 = Fin32 16777216
      \<and> at3 patch 0 0 0 \<noteq> Fin32 16777217
      \<and> lab = - (2 ^ 63) \<and> lab \<noteq> 2 ^ 63)
   \<and> (case Dataset_getitem
           (Dataset_init \<lparr>shape3 = (1, 1, 1), at3 = (\<lambda>x y c. 0)\<rparr>
                         \<lparr>shape2 = (2, 2), at2 = (\<lambda>x y. 1)\<rparr>
                         \<lparr>hp_patch_size = 1, hp_ignored_labels = [0]\<rparr>) 3 of
      Inl e \<Rightarrow> False
    | Inr (patch, lab) \<Rightarrow> shape3 patch = (1, 0, 0) \<and> lab = 1)"
proof -
  let ?d1 = "\<lparr>shape3 = (1, 1, 1), at3 = (\<lambda>x y c. (16777217::real))\<rparr>"
  let ?g1 = "\<lparr>shape2 = (1, 1), at2 = (\<lambda>x y. (2::int) ^ 63)\<rparr>"
  let ?h1 = "\<lparr>hp_patch_size = 1, hp_ignored_labels = []\<rparr>"
  let ?d2 = "\<lparr>shape3 = (1, 1, 1), at3 = (\<lambda>x y c. (0::real))\<rparr>"
  let ?g2 = "\<lparr>shape2 = (2, 2), at2 = (\<lambda>x y. (1::int))\<rparr>"
  let ?h2 = "\<lparr>hp_patch_size = 1, hp_ignored_labels = [0]\<rparr>"
  have idx1: "indices (Dataset_init ?d1 ?g1 ?h1) = [(0, 0)]"
    by (simp add: indices_init zip_nonzero Let_def fold_mask_out ones_like_def mask_out_def
        upt_conv_Cons)
  have idx2: "indices (Dataset_init ?d2 ?g2 ?h2) = [(0, 0), (0, 1), (1, 0), (1, 1)]"
    by (simp add: indices_init zip_nonzero Let_def fold_mask_out ones_like_def mask_out_def
        upt_conv_Cons)
  have g1: "Dataset_getitem (Dataset_init ?d1 ?g1 ?h1) 0 =
      Inr (astype3 to_float32 (transpose_201 (slice2 ?d1 (int 0 - hp_patch_size ?h1 div 2)
             (int 0 - hp_patch_size ?h1 div 2 + hp_patch_size ?h1)
             (int 0 - hp_patch_size ?h1 div 2)
             (int 0 - hp_patch_size ?h1 div 2 + hp_patch_size ?h1))),
           to_int64 (at2 ?g1 0 0))"
  proof (rule getitem_at_index)
    show "(0::int) \<le> 0" by simp
    show "0 < int (length (indices (Dataset_init ?d1 ?g1 ?h1)))"
      by (simp only: idx1) simp
    show "indices (Dataset_init ?d1 ?g1 ?h1) ! nat 0 = (0, 0)"
      by (simp only: idx1) simp
  qed
  have g2: "Dataset_getitem (Dataset_init ?d2 ?g2 ?h2) 3 =
      Inr (astype3 to_float32 (transpose_201 (slice2 ?d2 (int 1 - hp_patch_size ?h2 div 2)
             (int 1 - hp_patch_size ?h2 div 2 + hp_patch_size ?h2)
             (int 1 - hp_patch_size ?h2 div 2)
             (int 1 - hp_patch_size ?h2 div 2 + hp_patch_size ?h2))),
           to_int64 (at2 ?g2 1 1))"
  proof (rule getitem_at_index)
    show "(0::int) \<le> 3" by simp
    show "3 < int (length (indices (Dataset_init ?d2 ?g2 ?h2)))"
      by (simp only: idx2) simp
    show "indices (Dataset_init ?d2 ?g2 ?h2) ! nat 3 = (1, 1)"
      by (simp only: idx2) (simp add: eval_nat_numeral)
  qed
  have first: "case Dataset_getitem (Dataset_init ?d1 ?g1 ?h1) 0 of
      Inl e \<Rightarrow> False
    | Inr (patch, lab) \<Rightarrow>
        shape3 patch = (1, 1, 1) \<and> at3 patch 0 0 0 = Fin32 16777216
      \<and> at3 patch 0 0 0 \<noteq> Fin32 16777217
      \<and> lab = - (2 ^ 63) \<and> lab \<noteq> 2 ^ 63"
    unfolding g1
    by (simp add: shape3_astype at3_astype shape3_transpose at3_transpose shape3_slice2
        at3_slice2 slice_indices_def to_float32_tie to_int64_def)
  have second: "case Dataset_getitem (Dataset_init ?d2 ?g2 ?h2) 3 of
      Inl e \<Rightarrow> False
    | Inr (patch, lab) \<Rightarrow> shape3 patch = (1, 0, 0) \<and> lab = 1"
    unfolding g2
    by (simp add: shape3_astype shape3_transpose shape3_slice2 slice_indices_def to_int64_def)
  from first second show ?thesis by (rule conjI)
qed

text \<open>
  C5 (amended). On a sampler built over an image and labels of the same height and
  width, item access at an index \<open>i\<close> of \<open>[0, size)\<close> returns the pair \<open>(patch, label)\<close>
  for the stored coordinate \<open>(row, col)\<close>. The label is \<open>labels[row][col]\<close> converted to
  int64, which is the label itself when it lies in the int64 range. The patch is
  channel-first, of shape \<open>(channels, patch_size, patch_size)\<close>, and \<open>patch[c][dy][dx]\<close>
  is the image entry at row \<open>row - p + dy\<close>, column \<open>col - p + dx\<close> and channel \<open>c\<close>, a
  position of the image, rounded to float32, which is the entry itself when it is an
  integer of magnitude at most \<open>2 ^ 24\<close>; here \<open>p = patch_size // 2\<close> and \<open>dy, dx\<close> are in
  \<open>[0, patch_size)\<close>.
\<close>

theorem C5_item_access_patch_and_label:
  assumes coreg: "shape2 gt = (fst (shape3 dat), fst (snd (shape3 dat)))"
    and i: "0 \<le> i" "i < int (Dataset_len (Dataset_init dat gt hp))"
  shows "\<exists>patch lab row col.
       Dataset_getitem (Dataset_init dat gt hp) i = Inr (patch, lab)
     \<and> indices (Dataset_init dat gt hp) ! nat i = (row, col)
     \<and> lab = to_int64 (at2 gt row col)
     \<and> (- (2 ^ 63) \<le> at2 gt row col \<and> at2 gt row col < 2 ^ 63 \<longrightarrow> lab = at2 gt row col)
     \<and> (0 \<le> hp_patch_size hp \<longrightarrow>
          shape3 patch = (snd (snd (shape3 dat)), nat (hp_patch_size hp), nat (hp_patch_size hp)))
     \<and> (\<forall>c dy dx. c < snd (snd (shape3 dat))
            \<and> int dy < hp_patch_size hp \<and> int dx < hp_patch_size hp \<longrightarrow>
          0 \<le> int row - hp_patch_size hp div 2 + int dy
        \<and> int row - hp_patch_size hp div 2 + int dy < int (fst (shape3 dat))
        \<and> 0 \<le> int col - hp_patch_size hp div 2 + int dx
        \<and> int col - hp_patch_size hp div 2 + int dx < int (fst (snd (shape3 dat)))
        \<and> at3 patch c dy dx =
            to_float32 (at3 dat (nat (int row - hp_patch_size hp div 2 + int dy))
                               (nat (int col - hp_patch_size hp div 2 + int dx)) c)
        \<and> (\<forall>n::int. \<bar>n\<bar> \<le> 2 ^ 24
              \<and> at3 dat (nat (int row - hp_patch_size hp div 2 + int dy))
                         (nat (int col - hp_patch_size hp div 2 + int dx)) c = of_int n \<longrightarrow>
             at3 patch c dy dx =
               Fin32 (at3 dat (nat (int row - hp_patch_size hp div 2 + int dy))
                             (nat (int col - hp_patch_size hp div 2 + int dx)) c)))"
proof -
  let ?ds = "Dataset_init dat gt hp"
  let ?p = "hp_patch_size hp div 2"
  let ?ps = "hp_patch_size hp"
  obtain row col where rc: "indices ?ds ! nat i = (row, col)"
    by (cases "indices ?ds ! nat i")
  from i have len: "i < int (length (indices ?ds))" by (simp add: Dataset_len_def)
  with i(1) have "nat i < length (indices ?ds)" by simp
  then have "indices ?ds ! nat i \<in> set (indices ?ds)" by (rule nth_mem)
  with rc have mem: "(row, col) \<in> set (indices ?ds)" by simp
  let ?patch = "astype3 to_float32 (transpose_201 (slice2 dat (int row - ?p) (int row - ?p + ?ps)
                                        (int col - ?p) (int col - ?p + ?ps)))"
  have gi: "Dataset_getitem ?ds i = Inr (?patch, to_int64 (at2 gt row col))"
    by (rule getitem_at_index [OF i(1) len rc])
  have labr: "- (2 ^ 63) \<le> at2 gt row col \<and> at2 gt row col < 2 ^ 63 \<longrightarrow>
      to_int64 (at2 gt row col) = at2 gt row col"
    by (simp add: to_int64_in_range)
  have inside: "0 \<le> ?ps \<Longrightarrow>
      slice_indices (fst (shape3 dat)) (int row - ?p) (int row - ?p + ?ps)
        = (nat (int row - ?p), nat (int row - ?p + ?ps))
    \<and> slice_indices (fst (snd (shape3 dat))) (int col - ?p) (int col - ?p + ?ps)
        = (nat (int col - ?p), nat (int col - ?p + ?ps))
    \<and> 0 \<le> int row - ?p \<and> int row - ?p + ?ps \<le> int (fst (shape3 dat))
    \<and> 0 \<le> int col - ?p \<and> int col - ?p + ?ps \<le> int (fst (snd (shape3 dat)))"
  proof -
    assume ps: "0 \<le> ?ps"
    note w = window_inside [OF mem coreg ps]
    from w(1,2) ps have "slice_indices (fst (shape3 dat)) (int row - ?p) (int row - ?p + ?ps)
        = (nat (int row - ?p), nat (int row - ?p + ?ps))"
      by (intro slice_indices_inside) simp_all
    moreover from w(3,4) ps have "slice_indices (fst (snd (shape3 dat))) (int col - ?p) (int col - ?p + ?ps)
        = (nat (int col - ?p), nat (int col - ?p + ?ps))"
      by (intro slice_indices_inside) simp_all
    ultimately show ?thesis using w by simp
  qed
  have shp: "0 \<le> ?ps \<longrightarrow> shape3 ?patch = (snd (snd (shape3 dat)), nat ?ps, nat ?ps)"
  proof
    assume ps: "0 \<le> ?ps"
    have ext: "nat (a + ?ps) - nat a = nat ?ps" if "0 \<le> a" for a :: int
      using that ps by linarith
    note ins = inside [OF ps]
    from ins have "0 \<le> int row - ?p" and "0 \<le> int col - ?p" by simp_all
    then have "nat (int row - ?p + ?ps) - nat (int row - ?p) = nat ?ps"
      and "nat (int col - ?p + ?ps) - nat (int col - ?p) = nat ?ps"
      by (simp_all only: ext)
    with ins show "shape3 ?patch = (snd (snd (shape3 dat)), nat ?ps, nat ?ps)"
      by (simp add: shape3_astype shape3_transpose shape3_slice2)
  qed
  have ent: "\<forall>c dy dx. c < snd (snd (shape3 dat)) \<and> int dy < ?ps \<and> int dx < ?ps \<longrightarrow>
          0 \<le> int row - ?p + int dy
        \<and> int row - ?p + int dy < int (fst (shape3 dat))
        \<and> 0 \<le> int col - ?p + int dx
        \<and> int col - ?p + int dx < int (fst (snd (shape3 dat)))
        \<and> at3 ?patch c dy dx =
            to_float32 (at3 dat (nat (int row - ?p + int dy)) (nat (int col - ?p + int dx)) c)
        \<and> (\<forall>n::int. \<bar>n\<bar> \<le> 2 ^ 24
              \<and> at3 dat (nat (int row - ?p + int dy)) (nat (int col - ?p + int dx)) c = of_int n \<longrightarrow>
             at3 ?patch c dy dx =
               Fin32 (at3 dat (nat (int row - ?p + int dy)) (nat (int col - ?p + int dx)) c))"
  proof (intro allI impI)
    fix c dy dx
    assume d: "c < snd (snd (shape3 dat)) \<and> int dy < ?ps \<and> int dx < ?ps"
    then have ps: "0 \<le> ?ps" by linarith
    note ins = inside [OF ps]
    from ins have lo: "0 \<le> int row - ?p" "0 \<le> int col - ?p"
      and hi: "int row - ?p + ?ps \<le> int (fst (shape3 dat))"
        "int col - ?p + ?ps \<le> int (fst (snd (shape3 dat)))"
      by simp_all
    from d have dd: "int dy < ?ps" "int dx < ?ps" by simp_all
    have b: "0 \<le> int row - ?p + int dy"
      "int row - ?p + int dy < int (fst (shape3 dat))"
      "0 \<le> int col - ?p + int dx"
      "int col - ?p + int dx < int (fst (snd (shape3 dat)))"
      using lo hi dd by linarith+
    from ins have "at3 ?patch c dy dx =
        to_float32 (at3 dat (nat (int row - ?p) + dy) (nat (int col - ?p) + dx) c)"
      by (simp add: at3_astype at3_transpose at3_slice2)
    moreover from lo have "nat (int row - ?p) + dy = nat (int row - ?p + int dy)"
      and "nat (int col - ?p) + dx = nat (int col - ?p + int dx)"
      by (simp_all add: nat_add_distrib)
    ultimately have v: "at3 ?patch c dy dx =
        to_float32 (at3 dat (nat (int row - ?p + int dy)) (nat (int col - ?p + int dx)) c)"
      by simp
    have exact: "\<forall>n::int. \<bar>n\<bar> \<le> 2 ^ 24
          \<and> at3 dat (nat (int row - ?p + int dy)) (nat (int col - ?p + int dx)) c = of_int n \<longrightarrow>
        at3 ?patch c dy dx =
          Fin32 (at3 dat (nat (int row - ?p + int dy)) (nat (int col - ?p + int dx)) c)"
    proof (intro allI impI)
      fix n :: int
      assume n: "\<bar>n\<bar> \<le> 2 ^ 24
          \<and> at3 dat (nat (int row - ?p + int dy)) (nat (int col - ?p + int dx)) c = of_int n"
      then have "to_float32 (of_int n) = Fin32 (of_int n)"
        by (intro to_float32_small_int) simp
      with n show "at3 ?patch c dy dx =
          Fin32 (at3 dat (nat (int row - ?p + int dy)) (nat (int col - ?p + int dx)) c)"
        by (simp only: v)
    qed
    from b v exact show "0 \<le> int row - ?p + int dy
        \<and> int row - ?p + int dy < int (fst (shape3 dat))
        \<and> 0 \<le> int col - ?p + int dx
        \<and> int col - ?p + int dx < int (fst (snd (shape3 dat)))
        \<and> at3 ?patch c dy dx =
            to_float32 (at3 dat (nat (int row - ?p + int dy)) (nat (int col - ?p + int dx)) c)
        \<and> (\<forall>n::int. \<bar>n\<bar> \<le> 2 ^ 24
              \<and> at3 dat (nat (int row - ?p + int dy)) (nat (int col - ?p + int dx)) c = of_int n \<longrightarrow>
             at3 ?patch c dy dx =
               Fin32 (at3 dat (nat (int row - ?p + int dy)) (nat (int col - ?p + int dx)) c))"
      by (intro conjI)
  qed
  show ?thesis
    apply (rule exI [of _ ?patch])
    apply (rule exI [of _ "to_int64 (at2 gt row col)"])
    apply (rule exI [of _ row])
    apply (rule exI [of _ col])
    using gi rc labr shp ent apply (intro conjI)
         apply assumption
        apply assumption
       apply (rule refl)
      apply assumption
     apply assumption
    apply assumption
    done
qed

theorem C5_witness:
  "\<exists>patch. Dataset_getitem (Dataset_init scenario_image scenario_labels
                 \<lparr>hp_patch_size = 3, hp_ignored_labels = []\<rparr>) 10 = Inr (patch, 1)
     \<and> shape3 patch = (1, 3, 3)
     \<and> at3 patch 0 0 0 = Fin32 22 \<and> at3 patch 0 2 1 = Fin32 43"
proof -
  let ?hp = "\<lparr>hp_patch_size = 3, hp_ignored_labels = []\<rparr>"
  let ?ds = "Dataset_init scenario_image scenario_labels ?hp"
  have coreg: "shape2 scenario_labels =
      (fst (shape3 scenario_image), fst (snd (shape3 scenario_image)))"
    by (simp add: scenario_image_def scenario_labels_def)
  have len: "(10::int) < int (Dataset_len ?ds)"
    by (simp add: Dataset_len_def scenario_indices)
  have i0: "(0::int) \<le> 10" by simp
  from C5_item_access_patch_and_label [OF coreg i0 len]
  obtain patch lab row col where
    gi: "Dataset_getitem ?ds 10 = Inr (patch, lab)"
    and rc: "indices ?ds ! nat 10 = (row, col)"
    and lab: "- (2 ^ 63) \<le> at2 scenario_labels row col \<and> at2 scenario_labels row col < 2 ^ 63
        \<longrightarrow> lab = at2 scenario_labels row col"
    and shp: "0 \<le> hp_patch_size ?hp \<longrightarrow> shape3 patch =
        (snd (snd (shape3 scenario_image)), nat (hp_patch_size ?hp), nat (hp_patch_size ?hp))"
    and ent: "\<And>c dy dx n. c < snd (snd (shape3 scenario_image))
        \<and> int dy < hp_patch_size ?hp \<and> int dx < hp_patch_size ?hp \<Longrightarrow>
        \<bar>n\<bar> \<le> 2 ^ 24
          \<and> at3 scenario_image (nat (int row - hp_patch_size ?hp div 2 + int dy))
                                (nat (int col - hp_patch_size ?hp div 2 + int dx)) c = of_int n \<Longrightarrow>
        at3 patch c dy dx =
          Fin32 (at3 scenario_image (nat (int row - hp_patch_size ?hp div 2 + int dy))
                                    (nat (int col - hp_patch_size ?hp div 2 + int dx)) c)"
    by (elim exE conjE) blast
  from rc have row: "row = 3" and col: "col = 3"
    by (simp_all add: scenario_indices)
  from ent [where c = 0 and dy = 0 and dx = 0 and n = 22]
    ent [where c = 0 and dy = 2 and dx = 1 and n = 43]
  have "at3 patch 0 0 0 = Fin32 22" and "at3 patch 0 2 1 = Fin32 43"
    by (simp_all add: row col scenario_image_def)
  moreover from shp have "shape3 patch = (1, 3, 3)"
    by (simp add: scenario_image_def)
  moreover from lab have "lab = 1"
    by (simp add: row col scenario_labels_def)
  ultimately show ?thesis using gi by simp
qed

text \<open>
  C6. The size query returns the length of the stored index sequence; item access on a
  constructed sampler succeeds for every \<open>i\<close> with \<open>0 \<le> i < size\<close>, and raises
  \<open>IndexError\<close> for every \<open>i < 0\<close> and every \<open>i \<ge> size\<close>.
\<close>

theorem C6_size_and_index_errors:
  "Dataset_len ds = length (indices ds)
   \<and> (0 \<le> i \<and> i < int (Dataset_len (Dataset_init dat gt hp)) \<longrightarrow>
        (\<exists>patch lab. Dataset_getitem (Dataset_init dat gt hp) i = Inr (patch, lab)))
   \<and> (i < 0 \<or> int (Dataset_len ds) \<le> i \<longrightarrow> Dataset_getitem ds i = Inl IndexError)"
proof -
  have ok: "\<exists>patch lab. Dataset_getitem (Dataset_init dat gt hp) i = Inr (patch, lab)"
    if "0 \<le> i" and "i < int (Dataset_len (Dataset_init dat gt hp))"
  proof -
    obtain row col where rc: "indices (Dataset_init dat gt hp) ! nat i = (row, col)"
      by (cases "indices (Dataset_init dat gt hp) ! nat i")
    from that(2) have "i < int (length (indices (Dataset_init dat gt hp)))"
      by (simp add: Dataset_len_def)
    from getitem_at_index [OF that(1) this rc] show ?thesis by simp
  qed
  have bad: "Dataset_getitem ds i = Inl IndexError" if "i < 0 \<or> int (Dataset_len ds) \<le> i"
    using that by (auto simp: Dataset_getitem_def stored_coordinate_def Dataset_len_def)
  show ?thesis using ok bad by (simp add: Dataset_len_def)
qed

theorem C6_witness:
  "Dataset_len (Dataset_init scenario_image scenario_labels
                 \<lparr>hp_patch_size = 3, hp_ignored_labels = []\<rparr>) = 16
   \<and> (\<exists>patch lab. Dataset_getitem (Dataset_init scenario_image scenario_labels
                 \<lparr>hp_patch_size = 3, hp_ignored_labels = []\<rparr>) 15 = Inr (patch, lab))
   \<and> Dataset_getitem (Dataset_init scenario_image scenario_labels
                 \<lparr>hp_patch_size = 3, hp_ignored_labels = []\<rparr>) 16 = Inl IndexError
   \<and> Dataset_getitem (Dataset_init scenario_image scenario_labels
                 \<lparr>hp_patch_size = 3, hp_ignored_labels = []\<rparr>) (- 1) = Inl IndexError"
  using C6_size_and_index_errors [of "Dataset_init scenario_image scenario_labels
                 \<lparr>hp_patch_size = 3, hp_ignored_labels = []\<rparr>" 15 scenario_image scenario_labels
                 "\<lparr>hp_patch_size = 3, hp_ignored_labels = []\<rparr>"]
    C6_size_and_index_errors [of "Dataset_init scenario_image scenario_labels
                 \<lparr>hp_patch_size = 3, hp_ignored_labels = []\<rparr>" 16 scenario_image scenario_labels
                 "\<lparr>hp_patch_size = 3, hp_ignored_labels = []\<rparr>"]
    C6_size_and_index_errors [of "Dataset_init scenario_image scenario_labels
                 \<lparr>hp_patch_size = 3, hp_ignored_labels = []\<rparr>" "- 1" scenario_image scenario_labels
                 "\<lparr>hp_patch_size = 3, hp_ignored_labels = []\<rparr>"]
  by (simp add: scenario_indices)

text \<open>
  C10. With patch size \<open>0\<close>, item access at a valid index computes a window with
  \<open>x2 = x1\<close> and \<open>y2 = y1\<close>, and the patch returned has spatial dimensions \<open>0 \<times> 0\<close>
  (shape \<open>(channels, 0, 0)\<close>), not \<open>1 \<times> 1\<close>.
\<close>

theorem C10_zero_patch_size_empty_window:
  assumes ps: "hp_patch_size hp = 0"
    and i: "0 \<le> i" "i < int (Dataset_len (Dataset_init dat gt hp))"
  shows "\<exists>row col x1 y1 x2 y2 patch lab.
       indices (Dataset_init dat gt hp) ! nat i = (row, col)
     \<and> window (Dataset_init dat gt hp) (row, col) = ((x1, y1), (x2, y2))
     \<and> x2 = x1 \<and> y2 = y1
     \<and> Dataset_getitem (Dataset_init dat gt hp) i = Inr (patch, lab)
     \<and> shape3 patch = (snd (snd (shape3 dat)), 0, 0)"
proof -
  let ?ds = "Dataset_init dat gt hp"
  obtain row col where rc: "indices ?ds ! nat i = (row, col)"
    by (cases "indices ?ds ! nat i")
  from i(2) have len: "i < int (length (indices ?ds))" by (simp add: Dataset_len_def)
  have w: "window ?ds (row, col) = ((int row, int col), (int row, int col))"
    by (simp add: window_def fields_init ps Let_def)
  have gi: "Dataset_getitem ?ds i =
      Inr (astype3 to_float32 (transpose_201 (slice2 dat (int row) (int row) (int col) (int col))),
           to_int64 (at2 gt row col))"
    using getitem_at_index [OF i(1) len rc] by (simp add: ps)
  have e: "snd (slice_indices n (int k) (int k)) - fst (slice_indices n (int k) (int k)) = 0"
    for n k by (simp add: slice_indices_def)
  have sh: "shape3 (astype3 to_float32
        (transpose_201 (slice2 dat (int row) (int row) (int col) (int col))))
      = (snd (snd (shape3 dat)), 0, 0)"
    by (simp only: shape3_astype shape3_transpose shape3_slice2 e fst_conv snd_conv)
  from rc w gi sh show ?thesis by simp
qed

theorem C10_witness:
  "\<exists>patch lab. Dataset_getitem (Dataset_init scenario_image scenario_labels
                 \<lparr>hp_patch_size = 0, hp_ignored_labels = [0]\<rparr>) 0 = Inr (patch, lab)
     \<and> shape3 patch = (1, 0, 0)
     \<and> window (Dataset_init scenario_image scenario_labels
                 \<lparr>hp_patch_size = 0, hp_ignored_labels = [0]\<rparr>) (3, 3) = ((3, 3), (3, 3))"
proof -
  let ?hp = "\<lparr>hp_patch_size = 0, hp_ignored_labels = [0]\<rparr>"
  have idx: "indices (Dataset_init scenario_image scenario_labels ?hp) = [(3, 3)]"
    by (simp add: indices_init zip_nonzero Let_def ones_like_def mask_out_def
        scenario_image_def scenario_labels_def upt_conv_Cons)
  have len: "(0::int) < int (Dataset_len (Dataset_init scenario_image scenario_labels ?hp))"
    by (simp add: Dataset_len_def idx)
  from C10_zero_patch_size_empty_window [of ?hp 0 scenario_image scenario_labels, OF _ _ len]
  show ?thesis
    by (auto simp: idx scenario_image_def window_def fields_init Let_def)
qed

section \<open>GaborFilters: the synthesized kernel bank\<close>
















section \<open>Dataset: item access and the memory\<close>

lemma getitem_mem_Inr:
  assumes "Dataset_getitem (sampler m) i = Inr (patch, lab)"
  shows "Dataset_getitem_mem m i =
     Inr ((Fresh (length (allocated m)), Fresh (Suc (length (allocated m)))),
          m\<lparr>allocated := allocated m @ [Array3 patch, Scalar lab]\<rparr>)"
  using assms by (simp add: Dataset_getitem_mem_def np_copy_def)

text \<open>
  C8. On a constructed sampler and for an index \<open>i\<close> of \<open>[0, size)\<close>, two successive
  item accesses return the same patch and label values; neither changes the sampler
  object or the source arrays, nor any buffer that existed before it; each returns two
  buffers allocated by the call itself, which did not exist before it and are distinct
  from the source image, from the source labels and from the buffers of the other call.
\<close>

theorem C8_item_access_pure_and_fresh:
  assumes s: "sampler m = Dataset_init dat gt hp"
    and i: "0 \<le> i" "i < int (Dataset_len (sampler m))"
  shows "\<exists>patch lab p l m' p' l' m''.
       Dataset_getitem (sampler m) i = Inr (patch, lab)
     \<and> Dataset_getitem_mem m i = Inr ((p, l), m')
     \<and> Dataset_getitem_mem m' i = Inr ((p', l'), m'')
     \<and> deref m' p = Some (Array3 patch) \<and> deref m' l = Some (Scalar lab)
     \<and> deref m'' p' = Some (Array3 patch) \<and> deref m'' l' = Some (Scalar lab)
     \<and> deref m'' p = Some (Array3 patch) \<and> deref m'' l = Some (Scalar lab)
     \<and> sampler m' = sampler m \<and> sampler m'' = sampler m
     \<and> allocated m' = allocated m @ [Array3 patch, Scalar lab]
     \<and> allocated m'' = allocated m' @ [Array3 patch, Scalar lab]
     \<and> p = Fresh (length (allocated m)) \<and> l = Fresh (length (allocated m) + 1)
     \<and> p' = Fresh (length (allocated m')) \<and> l' = Fresh (length (allocated m') + 1)
     \<and> deref m p = None \<and> deref m l = None
     \<and> deref m' p' = None \<and> deref m' l' = None
     \<and> distinct [SourceImage, SourceLabels, p, l, p', l']"
proof -
  obtain row col where rc: "indices (Dataset_init dat gt hp) ! nat i = (row, col)"
    by (cases "indices (Dataset_init dat gt hp) ! nat i")
  from i(2) have len: "i < int (length (indices (Dataset_init dat gt hp)))"
    by (simp add: Dataset_len_def s)
  from getitem_at_index [OF i(1) len rc]
  obtain patch lab where gi: "Dataset_getitem (sampler m) i = Inr (patch, lab)"
    by (simp add: s)
  let ?m' = "m\<lparr>allocated := allocated m @ [Array3 patch, Scalar lab]\<rparr>"
  let ?m'' = "?m'\<lparr>allocated := allocated ?m' @ [Array3 patch, Scalar lab]\<rparr>"
  have first: "Dataset_getitem_mem m i =
      Inr ((Fresh (length (allocated m)), Fresh (Suc (length (allocated m)))), ?m')"
    by (rule getitem_mem_Inr [OF gi])
  have gi': "Dataset_getitem (sampler ?m') i = Inr (patch, lab)"
    using gi by simp
  have second: "Dataset_getitem_mem ?m' i =
      Inr ((Fresh (length (allocated ?m')), Fresh (Suc (length (allocated ?m')))), ?m'')"
    by (rule getitem_mem_Inr [OF gi'])
  show ?thesis
    apply (rule exI [of _ patch])
    apply (rule exI [of _ lab])
    apply (rule exI [of _ "Fresh (length (allocated m))"])
    apply (rule exI [of _ "Fresh (Suc (length (allocated m)))"])
    apply (rule exI [of _ ?m'])
    apply (rule exI [of _ "Fresh (length (allocated ?m'))"])
    apply (rule exI [of _ "Fresh (Suc (length (allocated ?m')))"])
    apply (rule exI [of _ ?m''])
    apply (simp only: first second gi)
    apply (simp add: deref_def nth_append)
    done
qed

theorem C8_witness:
  "\<exists>patch lab m' m''.
      Dataset_getitem_mem
        \<lparr>sampler = Dataset_init scenario_image scenario_labels
                      \<lparr>hp_patch_size = 3, hp_ignored_labels = []\<rparr>,
         allocated = []\<rparr> 10 = Inr ((Fresh 0, Fresh 1), m')
    \<and> Dataset_getitem_mem m' 10 = Inr ((Fresh 2, Fresh 3), m'')
    \<and> allocated m'' = [Array3 patch, Scalar lab, Array3 patch, Scalar lab]
    \<and> sampler m'' = Dataset_init scenario_image scenario_labels
                      \<lparr>hp_patch_size = 3, hp_ignored_labels = []\<rparr>"
proof -
  let ?ds = "Dataset_init scenario_image scenario_labels
                      \<lparr>hp_patch_size = 3, hp_ignored_labels = []\<rparr>"
  let ?m = "\<lparr>sampler = ?ds, allocated = []\<rparr>"
  have len: "(10::int) < int (Dataset_len (sampler ?m))"
    by (simp add: Dataset_len_def scenario_indices)
  have s: "sampler ?m = ?ds" by simp
  have i0: "(0::int) \<le> 10" by simp
  from C8_item_access_pure_and_fresh [OF s i0 len]
  obtain patch lab p l m' p' l' m'' where
    a: "Dataset_getitem_mem ?m 10 = Inr ((p, l), m')"
    and b: "Dataset_getitem_mem m' 10 = Inr ((p', l'), m'')"
    and c: "sampler m'' = sampler ?m"
    and d: "allocated m' = allocated ?m @ [Array3 patch, Scalar lab]"
      "allocated m'' = allocated m' @ [Array3 patch, Scalar lab]"
    and e: "p = Fresh (length (allocated ?m))" "l = Fresh (length (allocated ?m) + 1)"
      "p' = Fresh (length (allocated m'))" "l' = Fresh (length (allocated m') + 1)"
    by (elim exE conjE) simp
  from d have d': "allocated m'' = [Array3 patch, Scalar lab, Array3 patch, Scalar lab]"
    and dl: "length (allocated m') = 2" by simp_all
  from e dl have e': "p = Fresh 0" "l = Fresh 1" "p' = Fresh 2" "l' = Fresh 3" by simp_all
  from a b c d' show ?thesis
    unfolding e' by (intro exI conjI) simp_all
qed

end
